theory Spec2Isabelle
  imports Main
begin

section \<open>The Glance operator charm (src/charm.py)\<close>

text \<open>
  The charm is event-driven glue on top of two libraries that are not part of the
  repository (the operator framework \<open>ops\<close> and the base classes of
  \<open>advanced_sunbeam_openstack\<close>). Everything the charm reads from them is a field of
  the environment record \<open>charm_env\<close>; everything it changes through them is a field
  of \<open>charm_state\<close>. The environment is fixed during one run of \<open>configure_charm\<close>.
\<close>

subsection \<open>Data\<close>

text \<open>A context is a Python dict of strings; the renderer receives named contexts.\<close>

type_synonym context_mapping = "string \<rightharpoonup> string"

type_synonym named_context = "string \<times> context_mapping"

text \<open>The unit status classes of \<open>ops.model\<close>; the charm itself only builds \<open>BlockedStatus\<close>.\<close>

datatype status =
    UnknownStatus
  | MaintenanceStatus string
  | WaitingStatus string
  | BlockedStatus string
  | ActiveStatus

text \<open>
  The calls the charm makes on its pebble handlers, in the order it makes them:
  \<open>ph.execute(cmd, exception_on_error=b)\<close>, \<open>ph.init_service(contexts)\<close> and
  \<open>handler.start_service()\<close> (recorded with the handler's name).
\<close>

datatype call =
    Execute "string list" bool
  | InitService "named_context list"
  | StartService string

text \<open>The only exception the charm asks for: a command that exits non-zero.\<close>

datatype error = ExecError "string list"

text \<open>
  What a run can change: \<open>self.unit.status\<close>, \<open>self._state.bootstrapped\<close>, the files
  of the workload container, and the log of calls made on the pebble handlers.
\<close>

record charm_state =
  unit_status :: status
  bootstrapped :: bool
  files :: "string \<rightharpoonup> string"
  calls :: "call list"

text \<open>
  What a run reads.
  \<^item> \<open>get_relation\<close>, \<open>storages\<close>: \<open>self.model.get_relation\<close> and \<open>self.model.storages\<close>
    (relations and storage instances by their ids);
  \<^item> \<open>ceph_client_ready\<close>, \<open>ceph_client_context\<close>, \<open>ceph_key\<close>: what the parent class
    \<open>CephClientHandler\<close> answers for \<open>super().ready\<close>, \<open>super().context()\<close> and
    \<open>self.ceph.key\<close>;
  \<^item> \<open>relation_handlers_ready\<close>: the answer of the inherited
    \<open>self.relation_handlers_ready()\<close>; \<open>inherited_relation_handlers\<close>: what
    \<open>ready\<close> answers for each handler of \<open>super().get_relation_handlers()\<close>;
  \<^item> \<open>pebble_ready\<close>: \<open>pebble_ready\<close> of the handler named \<open>glance-api\<close>;
    \<open>pebble_handlers\<close>: the names of \<open>self.pebble_handlers\<close>; \<open>app_name\<close>:
    \<open>self.app.name\<close>;
  \<open>exit_code\<close>: the exit code of a command run in the container;
  \<^item> \<open>inherited_relation_contexts\<close>, \<open>inherited_config_contexts\<close>,
    \<open>ceph_configuration_context\<close>, \<open>cinder_ceph_configuration_context\<close>,
    \<open>inherited_container_configs\<close>, \<open>render\<close>: the contexts and configuration files of
    the base classes, the two Ceph configuration contexts, and the template renderer;
  \<^item> \<open>super_configure_charm\<close>: the inherited \<open>configure_charm\<close> of
    \<open>OSBaseOperatorAPICharm\<close>.
\<close>

record charm_env =
  get_relation :: "string \<Rightarrow> nat option"
  storages :: "string \<Rightarrow> nat list"
  ceph_client_ready :: bool
  ceph_client_context :: context_mapping
  ceph_key :: "string option"
  relation_handlers_ready :: bool
  inherited_relation_handlers :: "bool list"
  pebble_ready :: bool
  pebble_handlers :: "string list"
  app_name :: string
  exit_code :: "string list \<Rightarrow> int"
  inherited_relation_contexts :: "named_context list"
  inherited_config_contexts :: "named_context list"
  ceph_configuration_context :: context_mapping
  cinder_ceph_configuration_context :: context_mapping
  inherited_container_configs :: "(string \<times> string \<times> string) list"
  render :: "string \<Rightarrow> named_context list \<Rightarrow> string"
  super_configure_charm :: "charm_state \<Rightarrow> charm_state"

subsection \<open>GlanceOperatorCharm: the two queries\<close>

text \<open>\<open>has_local_storage\<close>: \<open>len(self.model.storages['local-repository']) > 0\<close>.\<close>

definition has_local_storage :: "charm_env \<Rightarrow> bool" where
  "has_local_storage env = (length (storages env ''local-repository'') > 0)"

text \<open>\<open>has_ceph_relation\<close>: \<open>self.model.get_relation('ceph') is not None\<close>.\<close>

definition has_ceph_relation :: "charm_env \<Rightarrow> bool" where
  "has_ceph_relation env = (get_relation env ''ceph'' \<noteq> None)"

subsection \<open>GlanceStorageRelationHandler\<close>

text \<open>The property \<open>ready\<close>, with its three returns in the source's order.\<close>

definition ready :: "charm_env \<Rightarrow> bool" where
  "ready env =
     (if has_ceph_relation env then ceph_client_ready env
      else if has_local_storage env then True
      else False)"

text \<open>The method \<open>context\<close> of the handler (\<open>{}\<close> is the empty map).\<close>

definition handler_context :: "charm_env \<Rightarrow> context_mapping" where
  "handler_context env =
     (if has_ceph_relation env then ceph_client_context env else Map.empty)"

subsection \<open>GlanceOperatorCharm: the relation handlers\<close>

text \<open>
  \<open>get_relation_handlers\<close> (lines 129 to 141): the handlers of the base class and,
  appended to them, the storage handler \<open>self.ceph\<close>. A handler is represented by what
  its \<open>ready\<close> answers, which for the storage handler is \<open>ready\<close> above.
\<close>

definition get_relation_handlers :: "charm_env \<Rightarrow> bool list" where
  "get_relation_handlers env = inherited_relation_handlers env @ [ready env]"

text \<open>
  Modelled from the spec: \<open>relation_handlers_ready()\<close> is a method of the base class,
  missing from the sources. The spec (4.2, step 1) has the charm wait when any declared
  relation has not completed its handshake, so the method answers whether every
  registered handler is ready; the docstring of \<open>ready\<close> (lines 57 and 58) says the
  same of the storage handler ("return False causing the charm to go into a waiting
  state").
\<close>

definition registered_handlers_ready :: "charm_env \<Rightarrow> bool" where
  "registered_handlers_ready env = list_all (\<lambda>handler_ready. handler_ready) (get_relation_handlers env)"

subsection \<open>GlanceOperatorCharm: contexts and configuration files\<close>

text \<open>The property \<open>config_contexts\<close>: two more contexts when Ceph is related.\<close>

definition config_contexts :: "charm_env \<Rightarrow> named_context list" where
  "config_contexts env =
     (if has_ceph_relation env
      then inherited_config_contexts env
           @ [(''ceph_config'', ceph_configuration_context env)]
           @ [(''cinder_ceph'', cinder_ceph_configuration_context env)]
      else inherited_config_contexts env)"

definition ceph_conf :: string where
  "ceph_conf = ''/etc/ceph/ceph.conf''"

definition service_user :: string where
  "service_user = ''glance''"

definition service_group :: string where
  "service_group = ''glance''"

text \<open>
  The property \<open>container_configs\<close>: a \<open>ContainerConfigFile\<close> is its path, user and
  group; \<open>ceph.conf\<close> is added when Ceph is related.
\<close>

definition container_configs :: "charm_env \<Rightarrow> (string \<times> string \<times> string) list" where
  "container_configs env =
     (if has_ceph_relation env
      then inherited_container_configs env @ [(ceph_conf, service_user, service_group)]
      else inherited_container_configs env)"

text \<open>
  Modelled from the spec: \<open>self.contexts()\<close> is a method of the base class, outside the
  repository. The spec (4.2, step 3) has the renderer receive "the evaluator's
  \<open>context()\<close> output merged with all other configuration contexts", as an ordered list
  of named mappings (section 6); the handler is registered under the relation name
  \<open>ceph\<close> by \<open>get_relation_handlers\<close>.
\<close>

definition contexts :: "charm_env \<Rightarrow> named_context list" where
  "contexts env =
     inherited_relation_contexts env @ [(''ceph'', handler_context env)] @ config_contexts env"

subsection \<open>The pebble handler\<close>

text \<open>
  The pebble handler (the process-supervision collaborator of section 6 of the spec:
  \<open>execute(commandArgs, failOnNonzeroExit)\<close>, \<open>initService(contexts)\<close>,
  \<open>startService()\<close>) is library code outside the repository. Every call the charm
  makes on it is appended to the log of the state.
\<close>

definition log_call :: "call \<Rightarrow> charm_state \<Rightarrow> charm_state" where
  "log_call c st = st\<lparr>calls := calls st @ [c]\<rparr>"

text \<open>
  Modelled from the spec: \<open>execute\<close> of the pebble handler, missing from the sources.
  The spec (sections 4.2 and 7) makes a provisioning command that fails fatal: with
  \<open>exception_on_error\<close> set, a non-zero exit raises and the run ends there.
\<close>

definition execute ::
  "charm_env \<Rightarrow> string list \<Rightarrow> bool \<Rightarrow> charm_state \<Rightarrow> (error \<times> charm_state) + charm_state"
where
  "execute env cmd exception_on_error st =
     (if exit_code env cmd \<noteq> 0 \<and> exception_on_error
      then Inl (ExecError cmd, log_call (Execute cmd exception_on_error) st)
      else Inr (log_call (Execute cmd exception_on_error) st))"

text \<open>
  Modelled from the spec: the config-rendering collaborator, missing from the sources.
  The spec (section 6) has it take the ordered list of named contexts and a target
  path with its owner and group, and write the rendered file.
\<close>

fun write_configs ::
  "charm_env \<Rightarrow> named_context list \<Rightarrow> (string \<times> string \<times> string) list
     \<Rightarrow> (string \<rightharpoonup> string) \<Rightarrow> (string \<rightharpoonup> string)"
where
  "write_configs env ctxs [] fs = fs"
| "write_configs env ctxs ((path, user, grp) # cfgs) fs =
     write_configs env ctxs cfgs (fs(path \<mapsto> render env path ctxs))"

text \<open>
  Modelled from the spec: \<open>init_service\<close> of the pebble handler, missing from the
  sources. The spec (4.2, step 3) has it render and write the service configuration
  from the contexts it is given; the files are those of \<open>container_configs\<close>.
\<close>

definition init_service :: "charm_env \<Rightarrow> named_context list \<Rightarrow> charm_state \<Rightarrow> charm_state" where
  "init_service env ctxs st =
     log_call (InitService ctxs)
       (st\<lparr>files := write_configs env ctxs (container_configs env) (files st)\<rparr>)"

text \<open>
  Modelled from the spec: \<open>start_service\<close> of a pebble handler, missing from the
  sources. The spec (4.2, step 4) makes starting a running service a no-op for the
  caller; here it changes nothing but the log.
\<close>

definition start_service :: "string \<Rightarrow> charm_state \<Rightarrow> charm_state" where
  "start_service handler st = log_call (StartService handler) st"

subsection \<open>GlanceOperatorCharm.configure_charm\<close>

text \<open>Python's truth value of \<open>self.ceph.key\<close>: \<open>None\<close> and the empty string are false.\<close>

definition truthy :: "string option \<Rightarrow> bool" where
  "truthy k = (case k of None \<Rightarrow> False | Some s \<Rightarrow> s \<noteq> [])"

text \<open>The key as an f-string prints it.\<close>

fun format_key :: "string option \<Rightarrow> string" where
  "format_key None = ''None''"
| "format_key (Some s) = s"

text \<open>
  Lines 211 to 225: the three commands, each with \<open>exception_on_error=True\<close>; an
  exception leaves the method at once.
\<close>

definition setup_ceph :: "charm_env \<Rightarrow> charm_state \<Rightarrow> (error \<times> charm_state) + charm_state" where
  "setup_ceph env st =
     (case execute env [''apt'', ''update''] True st of
        Inl e \<Rightarrow> Inl e
      | Inr st1 \<Rightarrow>
          (case execute env [''apt'', ''install'', ''-y'', ''ceph-common''] True st1 of
             Inl e \<Rightarrow> Inl e
           | Inr st2 \<Rightarrow>
               execute env
                 [''ceph-authtool'',
                  ''/etc/ceph/ceph.client.'' @ app_name env @ ''.keyring'',
                  ''--create-keyring'',
                  ''--name=client.'' @ app_name env,
                  ''--add-key='' @ format_key (ceph_key env)]
                 True st2))"

text \<open>Lines 208 to 228: what is done on the \<open>glance-api\<close> pebble handler.\<close>

definition configure_pebble ::
  "charm_env \<Rightarrow> charm_state \<Rightarrow> (error \<times> charm_state) + charm_state"
where
  "configure_pebble env st =
     (if pebble_ready env then
        (case (if has_ceph_relation env \<and> truthy (ceph_key env)
               then setup_ceph env st else Inr st) of
           Inl e \<Rightarrow> Inl e
         | Inr st' \<Rightarrow> Inr (init_service env (contexts env) st'))
      else Inr st)"

text \<open>Lines 231 to 233: start every pebble handler's service once bootstrapped.\<close>

definition start_services :: "charm_env \<Rightarrow> charm_state \<Rightarrow> charm_state" where
  "start_services env st =
     (if bootstrapped st
      then foldl (\<lambda>s handler. start_service handler s) st (pebble_handlers env)
      else st)"

text \<open>Lines 208 to 233: the part of the method after the storage checks.\<close>

definition configure_services ::
  "charm_env \<Rightarrow> charm_state \<Rightarrow> (error \<times> charm_state) + charm_state"
where
  "configure_services env st =
     (case configure_pebble env st of
        Inl e \<Rightarrow> Inl e
      | Inr st' \<Rightarrow> Inr (start_services env (super_configure_charm env st')))"

text \<open>
  The whole method. \<open>Inr\<close> is a normal return with the state it leaves, \<open>Inl\<close> an
  exception with the state at the raise.
\<close>

definition configure_charm ::
  "charm_env \<Rightarrow> charm_state \<Rightarrow> (error \<times> charm_state) + charm_state"
where
  "configure_charm env st =
     (if \<not> relation_handlers_ready env then Inr st
      else if has_ceph_relation env then
        (if \<not> truthy (ceph_key env) then Inr st
         else configure_services env st)
      else if has_local_storage env then configure_services env st
      else Inr (st\<lparr>unit_status :=
             BlockedStatus ''Missing storage. Relate to Ceph or add local storage to continue.''\<rparr>))"

text \<open>The state a run leaves behind, however it ended.\<close>

fun final_state :: "(error \<times> charm_state) + charm_state \<Rightarrow> charm_state" where
  "final_state (Inl (e, st)) = st"
| "final_state (Inr st) = st"

subsection \<open>The specification's evaluator\<close>

text \<open>
  The spec (section 3 and 4.1) describes the storage decision as a function
  \<open>evaluate\<close> from the state of the storage relation and the number of attached local
  storage instances to a verdict. \<open>spec_evaluate\<close> follows the spec's words, step by
  step; it is what the charm's \<open>ready\<close> and \<open>configure_charm\<close> are compared with.
\<close>

datatype storage_backend = NoBackend | LocalAttached | NetworkedRemote "string option"

datatype readiness_verdict = NotReady string | Ready storage_backend

record relation_state =
  rs_present :: bool
  rs_ready :: bool
  rs_data :: context_mapping
  rs_credential_key :: "string option"

definition spec_evaluate :: "relation_state \<Rightarrow> int \<Rightarrow> readiness_verdict" where
  "spec_evaluate rel localStorageCount =
     (if rs_present rel then
        (if rs_ready rel then Ready (NetworkedRemote (rs_credential_key rel))
         else NotReady ''credential key not yet present'')
      else if localStorageCount > 0 then Ready LocalAttached
      else NotReady ''no storage backend configured'')"

text \<open>What the evaluator of the spec is given, read from the charm's environment.\<close>

definition relation_state_of :: "charm_env \<Rightarrow> relation_state" where
  "relation_state_of env =
     \<lparr>rs_present = has_ceph_relation env,
      rs_ready = ceph_client_ready env,
      rs_data = ceph_client_context env,
      rs_credential_key = ceph_key env\<rparr>"

definition local_storage_count :: "charm_env \<Rightarrow> int" where
  "local_storage_count env = int (length (storages env ''local-repository''))"

subsection \<open>What an observer of the unit sees\<close>

text \<open>The reported status, the bootstrap flag and the files; not the log of calls.\<close>

definition observable :: "charm_state \<Rightarrow> status \<times> bool \<times> (string \<rightharpoonup> string)" where
  "observable st = (unit_status st, bootstrapped st, files st)"

subsection \<open>Concrete deployments\<close>

text \<open>
  A unit with no Ceph relation and no storage, whose other relations are ready, whose
  container is up and whose commands succeed. The inherited configuration step of this
  deployment reports \<open>ActiveStatus\<close> and sets the bootstrap flag.
\<close>

definition bare_env :: charm_env where
  "bare_env =
     \<lparr>get_relation = (\<lambda>name. None),
      storages = (\<lambda>name. []),
      ceph_client_ready = False,
      ceph_client_context = Map.empty,
      ceph_key = None,
      relation_handlers_ready = True,
      inherited_relation_handlers = [],
      pebble_ready = True,
      pebble_handlers = [''glance-api''],
      app_name = ''glance'',
      exit_code = (\<lambda>cmd. 0),
      inherited_relation_contexts = [],
      inherited_config_contexts = [],
      ceph_configuration_context = Map.empty,
      cinder_ceph_configuration_context = Map.empty,
      inherited_container_configs = [(''/etc/glance/glance-api.conf'', ''glance'', ''glance'')],
      render = (\<lambda>path ctxs. ''rendered '' @ path),
      super_configure_charm =
        (\<lambda>st. st\<lparr>unit_status := ActiveStatus, bootstrapped := True\<rparr>)\<rparr>"

text \<open>The same unit with one local storage instance attached.\<close>

definition local_env :: charm_env where
  "local_env = bare_env\<lparr>storages := (\<lambda>name. if name = ''local-repository'' then [0] else [])\<rparr>"

text \<open>The same unit related to Ceph, the relation not yet ready and no key received.\<close>

definition ceph_pending_env :: charm_env where
  "ceph_pending_env =
     bare_env\<lparr>get_relation := (\<lambda>name. if name = ''ceph'' then Some 1 else None)\<rparr>"

text \<open>The same unit related to Ceph, the relation ready and the key received.\<close>

definition ceph_env :: charm_env where
  "ceph_env =
     ceph_pending_env
       \<lparr>ceph_client_ready := True,
        ceph_client_context := [''key'' \<mapsto> ''AQC'', ''auth'' \<mapsto> ''cephx''],
        ceph_key := Some ''AQC''\<rparr>"

text \<open>A unit before its first configuration.\<close>

definition initial_state :: charm_state where
  "initial_state =
     \<lparr>unit_status = MaintenanceStatus [], bootstrapped = False,
      files = Map.empty, calls = []\<rparr>"

section \<open>Properties\<close>

subsection \<open>Auxiliary facts\<close>

text \<open>The storage inventory is read by \<open>has_local_storage\<close> only.\<close>

lemma has_ceph_relation_storages [simp]:
  "has_ceph_relation (env\<lparr>storages := sts\<rparr>) = has_ceph_relation env"
  by (simp add: has_ceph_relation_def)

lemma contexts_storages [simp]:
  "contexts (env\<lparr>storages := sts\<rparr>) = contexts env"
  by (simp add: contexts_def handler_context_def config_contexts_def)

lemma container_configs_storages [simp]:
  "container_configs (env\<lparr>storages := sts\<rparr>) = container_configs env"
  by (simp add: container_configs_def)

lemma write_configs_storages [simp]:
  "write_configs (env\<lparr>storages := sts\<rparr>) ctxs cfgs fs = write_configs env ctxs cfgs fs"
  by (induction cfgs arbitrary: fs) auto

lemma configure_services_storages [simp]:
  "configure_services (env\<lparr>storages := sts\<rparr>) st = configure_services env st"
  by (simp add: configure_services_def configure_pebble_def setup_ceph_def execute_def
      init_service_def start_services_def)

text \<open>The handler is ready exactly when the evaluator of the spec says \<open>Ready\<close>.\<close>

lemma ready_refines_spec_evaluate:
  "ready env \<longleftrightarrow>
     (\<exists>b. spec_evaluate (relation_state_of env) (local_storage_count env) = Ready b)"
  by (simp add: ready_def spec_evaluate_def relation_state_of_def local_storage_count_def
      has_local_storage_def)

text \<open>Starting the services appends one call per handler and changes nothing else.\<close>

lemma start_all_calls:
  "calls (foldl (\<lambda>s handler. start_service handler s) st hs) = calls st @ map StartService hs"
  by (induction hs arbitrary: st) (simp_all add: start_service_def log_call_def)

lemma start_all_observable:
  "observable (foldl (\<lambda>s handler. start_service handler s) st hs) = observable st"
  by (induction hs arbitrary: st) (simp_all add: start_service_def log_call_def observable_def)

lemma start_services_calls:
  "calls (start_services env st) =
     calls st @ (if bootstrapped st then map StartService (pebble_handlers env) else [])"
  by (simp add: start_services_def start_all_calls)

lemma start_services_observable:
  "observable (start_services env st) = observable st"
  by (simp add: start_services_def start_all_observable)

lemma start_services_bootstrapped:
  "bootstrapped (start_services env st) = bootstrapped st"
  using start_services_observable [of env st] by (simp add: observable_def)

text \<open>Three commands run one after the other, each raising on a non-zero exit.\<close>

lemma three_commands:
  "(case execute env c1 True st of
      Inl e \<Rightarrow> Inl e
    | Inr st1 \<Rightarrow>
        (case execute env c2 True st1 of
           Inl e \<Rightarrow> Inl e
         | Inr st2 \<Rightarrow> execute env c3 True st2)) =
   (if exit_code env c1 \<noteq> 0 then
      Inl (ExecError c1, st\<lparr>calls := calls st @ [Execute c1 True]\<rparr>)
    else if exit_code env c2 \<noteq> 0 then
      Inl (ExecError c2, st\<lparr>calls := calls st @ [Execute c1 True, Execute c2 True]\<rparr>)
    else if exit_code env c3 \<noteq> 0 then
      Inl (ExecError c3,
           st\<lparr>calls := calls st @ [Execute c1 True, Execute c2 True, Execute c3 True]\<rparr>)
    else
      Inr (st\<lparr>calls := calls st @ [Execute c1 True, Execute c2 True, Execute c3 True]\<rparr>))"
  by (simp add: execute_def log_call_def)

lemma case_three:
  "(case (if a then Inl x else if b then Inl y else if c then Inl z else Inr s) of
      Inl e \<Rightarrow> Inl e
    | Inr s' \<Rightarrow> Inr (g s')) =
   (if a then Inl x else if b then Inl y else if c then Inl z else Inr (g s))"
  by simp

lemma setup_ceph_unfold:
  "setup_ceph env st =
     (if exit_code env [''apt'', ''update''] \<noteq> 0 then
        Inl (ExecError [''apt'', ''update''],
             st\<lparr>calls := calls st @ [Execute [''apt'', ''update''] True]\<rparr>)
      else if exit_code env [''apt'', ''install'', ''-y'', ''ceph-common''] \<noteq> 0 then
        Inl (ExecError [''apt'', ''install'', ''-y'', ''ceph-common''],
             st\<lparr>calls := calls st @
                [Execute [''apt'', ''update''] True,
                 Execute [''apt'', ''install'', ''-y'', ''ceph-common''] True]\<rparr>)
      else if exit_code env
          [''ceph-authtool'', ''/etc/ceph/ceph.client.'' @ app_name env @ ''.keyring'',
           ''--create-keyring'', ''--name=client.'' @ app_name env,
           ''--add-key='' @ format_key (ceph_key env)] \<noteq> 0
      then
        Inl (ExecError
               [''ceph-authtool'', ''/etc/ceph/ceph.client.'' @ app_name env @ ''.keyring'',
                ''--create-keyring'', ''--name=client.'' @ app_name env,
                ''--add-key='' @ format_key (ceph_key env)],
             st\<lparr>calls := calls st @
                [Execute [''apt'', ''update''] True,
                 Execute [''apt'', ''install'', ''-y'', ''ceph-common''] True,
                 Execute
                   [''ceph-authtool'', ''/etc/ceph/ceph.client.'' @ app_name env @ ''.keyring'',
                    ''--create-keyring'', ''--name=client.'' @ app_name env,
                    ''--add-key='' @ format_key (ceph_key env)] True]\<rparr>)
      else
        Inr (st\<lparr>calls := calls st @
                [Execute [''apt'', ''update''] True,
                 Execute [''apt'', ''install'', ''-y'', ''ceph-common''] True,
                 Execute
                   [''ceph-authtool'', ''/etc/ceph/ceph.client.'' @ app_name env @ ''.keyring'',
                    ''--create-keyring'', ''--name=client.'' @ app_name env,
                    ''--add-key='' @ format_key (ceph_key env)] True]\<rparr>))"
  unfolding setup_ceph_def by (rule three_commands)

lemma configure_services_ceph:
  assumes "pebble_ready env" and "has_ceph_relation env" and "truthy (ceph_key env)"
  shows "configure_services env st =
     (case setup_ceph env st of
        Inl e \<Rightarrow> Inl e
      | Inr st' \<Rightarrow>
          Inr (start_services env (super_configure_charm env
                 (init_service env (contexts env) st'))))"
  using assms by (simp add: configure_services_def configure_pebble_def split: sum.split)

lemma configure_services_local:
  assumes "pebble_ready env" and "\<not> has_ceph_relation env"
  shows "configure_services env st =
     Inr (start_services env (super_configure_charm env (init_service env (contexts env) st)))"
  using assms by (simp add: configure_services_def configure_pebble_def)

lemma configure_services_ceph_commands:
  assumes pr: "pebble_ready env" and rel: "has_ceph_relation env"
    and key: "ceph_key env = Some k" and nonempty: "k \<noteq> []"
  shows "configure_services env st =
     (if exit_code env [''apt'', ''update''] \<noteq> 0 then
        Inl (ExecError [''apt'', ''update''],
             st\<lparr>calls := calls st @ [Execute [''apt'', ''update''] True]\<rparr>)
      else if exit_code env [''apt'', ''install'', ''-y'', ''ceph-common''] \<noteq> 0 then
        Inl (ExecError [''apt'', ''install'', ''-y'', ''ceph-common''],
             st\<lparr>calls := calls st @
                [Execute [''apt'', ''update''] True,
                 Execute [''apt'', ''install'', ''-y'', ''ceph-common''] True]\<rparr>)
      else if exit_code env
          [''ceph-authtool'', ''/etc/ceph/ceph.client.'' @ app_name env @ ''.keyring'',
           ''--create-keyring'', ''--name=client.'' @ app_name env, ''--add-key='' @ k] \<noteq> 0
      then
        Inl (ExecError
               [''ceph-authtool'', ''/etc/ceph/ceph.client.'' @ app_name env @ ''.keyring'',
                ''--create-keyring'', ''--name=client.'' @ app_name env, ''--add-key='' @ k],
             st\<lparr>calls := calls st @
                [Execute [''apt'', ''update''] True,
                 Execute [''apt'', ''install'', ''-y'', ''ceph-common''] True,
                 Execute
                   [''ceph-authtool'', ''/etc/ceph/ceph.client.'' @ app_name env @ ''.keyring'',
                    ''--create-keyring'', ''--name=client.'' @ app_name env,
                    ''--add-key='' @ k] True]\<rparr>)
      else
        Inr (start_services env (super_configure_charm env
               (init_service env (contexts env)
                  (st\<lparr>calls := calls st @
                     [Execute [''apt'', ''update''] True,
                      Execute [''apt'', ''install'', ''-y'', ''ceph-common''] True,
                      Execute
                        [''ceph-authtool'',
                         ''/etc/ceph/ceph.client.'' @ app_name env @ ''.keyring'',
                         ''--create-keyring'', ''--name=client.'' @ app_name env,
                         ''--add-key='' @ k] True]\<rparr>)))))"
proof -
  from key nonempty have t: "truthy (ceph_key env)"
    by (simp add: truthy_def)
  from key have f: "format_key (ceph_key env) = k"
    by simp
  show ?thesis
    unfolding configure_services_ceph [OF pr rel t] setup_ceph_unfold f
    by (rule case_three)
qed

text \<open>Whether the three commands succeed, and what they log, does not depend on the state.\<close>

lemma three_commands_uniform:
  "(\<exists>e cs. \<forall>st.
      (case execute env c1 True st of
         Inl e \<Rightarrow> Inl e
       | Inr st1 \<Rightarrow>
           (case execute env c2 True st1 of
              Inl e \<Rightarrow> Inl e
            | Inr st2 \<Rightarrow> execute env c3 True st2)) = Inl (e, st\<lparr>calls := calls st @ cs\<rparr>))
   \<or> (\<exists>cs. \<forall>st.
      (case execute env c1 True st of
         Inl e \<Rightarrow> Inl e
       | Inr st1 \<Rightarrow>
           (case execute env c2 True st1 of
              Inl e \<Rightarrow> Inl e
            | Inr st2 \<Rightarrow> execute env c3 True st2)) = Inr (st\<lparr>calls := calls st @ cs\<rparr>))"
  unfolding three_commands
  by (cases "exit_code env c1 = 0"; cases "exit_code env c2 = 0"; cases "exit_code env c3 = 0")
     (simp_all, blast+)

lemma setup_ceph_uniform:
  "(\<exists>e cs. \<forall>st. setup_ceph env st = Inl (e, st\<lparr>calls := calls st @ cs\<rparr>))
   \<or> (\<exists>cs. \<forall>st. setup_ceph env st = Inr (st\<lparr>calls := calls st @ cs\<rparr>))"
  unfolding setup_ceph_def by (rule three_commands_uniform)

lemma configure_pebble_uniform:
  "(\<exists>e cs. \<forall>st. configure_pebble env st = Inl (e, st\<lparr>calls := calls st @ cs\<rparr>))
   \<or> (\<forall>st. configure_pebble env st = Inr st)
   \<or> (\<exists>cs. \<forall>st. configure_pebble env st =
          Inr (init_service env (contexts env) (st\<lparr>calls := calls st @ cs\<rparr>)))"
proof (cases "pebble_ready env")
  case False
  then show ?thesis
    by (simp add: configure_pebble_def)
next
  case ready: True
  show ?thesis
  proof (cases "has_ceph_relation env \<and> truthy (ceph_key env)")
    case False
    with ready have "\<forall>st. configure_pebble env st =
        Inr (init_service env (contexts env) (st\<lparr>calls := calls st @ []\<rparr>))"
      by (auto simp add: configure_pebble_def)
    then show ?thesis by blast
  next
    case True
    with ready have unfold: "\<And>st. configure_pebble env st =
        (case setup_ceph env st of
           Inl e \<Rightarrow> Inl e
         | Inr st' \<Rightarrow> Inr (init_service env (contexts env) st'))"
      by (simp add: configure_pebble_def)
    from setup_ceph_uniform [of env] show ?thesis
    proof
      assume "\<exists>e cs. \<forall>st. setup_ceph env st = Inl (e, st\<lparr>calls := calls st @ cs\<rparr>)"
      then obtain e cs where "\<And>st. setup_ceph env st = Inl (e, st\<lparr>calls := calls st @ cs\<rparr>)"
        by blast
      then have "\<forall>st. configure_pebble env st = Inl (e, st\<lparr>calls := calls st @ cs\<rparr>)"
        by (simp add: unfold)
      then show ?thesis by blast
    next
      assume "\<exists>cs. \<forall>st. setup_ceph env st = Inr (st\<lparr>calls := calls st @ cs\<rparr>)"
      then obtain cs where "\<And>st. setup_ceph env st = Inr (st\<lparr>calls := calls st @ cs\<rparr>)"
        by blast
      then have "\<forall>st. configure_pebble env st =
          Inr (init_service env (contexts env) (st\<lparr>calls := calls st @ cs\<rparr>))"
        by (simp add: unfold)
      then show ?thesis by blast
    qed
  qed
qed

text \<open>Nothing before the inherited step touches the bootstrap flag.\<close>

lemma configure_pebble_bootstrapped:
  "bootstrapped (final_state (configure_pebble env st)) = bootstrapped st"
  using configure_pebble_uniform [of env]
  by (elim disjE exE) (simp_all add: init_service_def log_call_def)

lemma configure_services_flag:
  "bootstrapped (final_state (configure_services env st)) = bootstrapped st
   \<or> (\<exists>s. bootstrapped s = bootstrapped st
        \<and> bootstrapped (final_state (configure_services env st))
            = bootstrapped (super_configure_charm env s))"
proof (cases "configure_pebble env st")
  case (Inl a)
  with configure_pebble_bootstrapped [of env st] show ?thesis
    by (simp add: configure_services_def)
next
  case (Inr s)
  with configure_pebble_bootstrapped [of env st] have "bootstrapped s = bootstrapped st"
    by simp
  moreover from Inr have "bootstrapped (final_state (configure_services env st))
      = bootstrapped (super_configure_charm env s)"
    by (simp add: configure_services_def start_services_bootstrapped)
  ultimately show ?thesis by blast
qed

lemma configure_charm_flag:
  "bootstrapped (final_state (configure_charm env st)) = bootstrapped st
   \<or> (\<exists>s. bootstrapped s = bootstrapped st
        \<and> bootstrapped (final_state (configure_charm env st))
            = bootstrapped (super_configure_charm env s))"
  using configure_services_flag [of env st]
  by (simp add: configure_charm_def)

text \<open>Facts about the concrete deployments.\<close>

lemma bare_env_facts:
  "\<not> has_ceph_relation bare_env" "\<not> has_local_storage bare_env"
  "relation_handlers_ready bare_env" "pebble_ready bare_env"
  by (simp_all add: bare_env_def has_ceph_relation_def has_local_storage_def)

lemma local_env_facts:
  "\<not> has_ceph_relation local_env" "has_local_storage local_env"
  "relation_handlers_ready local_env" "pebble_ready local_env"
  "storages local_env ''local-repository'' = [0]"
  by (simp_all add: local_env_def bare_env_def has_ceph_relation_def has_local_storage_def)

lemma ceph_pending_env_facts:
  "has_ceph_relation ceph_pending_env" "\<not> ceph_client_ready ceph_pending_env"
  "\<not> truthy (ceph_key ceph_pending_env)" "relation_handlers_ready ceph_pending_env"
  by (simp_all add: ceph_pending_env_def bare_env_def has_ceph_relation_def truthy_def)

lemma ceph_env_facts:
  "has_ceph_relation ceph_env" "ceph_client_ready ceph_env"
  "ceph_key ceph_env = Some ''AQC''" "truthy (ceph_key ceph_env)"
  "relation_handlers_ready ceph_env" "pebble_ready ceph_env"
  "app_name ceph_env = ''glance''" "pebble_handlers ceph_env = [''glance-api'']"
  by (simp_all add: ceph_env_def ceph_pending_env_def bare_env_def has_ceph_relation_def
      truthy_def)

text \<open>Writing the configuration files overwrites; doing it twice is doing it once.\<close>

lemma write_configs_add:
  "write_configs env ctxs cfgs fs = fs ++ write_configs env ctxs cfgs Map.empty"
proof (induction cfgs arbitrary: fs)
  case Nil
  show ?case by simp
next
  case (Cons cfg cfgs)
  obtain path user grp where cfg: "cfg = (path, user, grp)"
    by (cases cfg) auto
  have "write_configs env ctxs (cfg # cfgs) fs =
      write_configs env ctxs cfgs (fs(path \<mapsto> render env path ctxs))"
    unfolding cfg by simp
  also have "\<dots> = fs(path \<mapsto> render env path ctxs) ++ write_configs env ctxs cfgs Map.empty"
    by (rule Cons.IH)
  finally have left: "write_configs env ctxs (cfg # cfgs) fs =
      fs(path \<mapsto> render env path ctxs) ++ write_configs env ctxs cfgs Map.empty" .
  have "write_configs env ctxs (cfg # cfgs) Map.empty =
      write_configs env ctxs cfgs [path \<mapsto> render env path ctxs]"
    unfolding cfg by simp
  also have "\<dots> = [path \<mapsto> render env path ctxs] ++ write_configs env ctxs cfgs Map.empty"
    by (rule Cons.IH)
  finally have right: "write_configs env ctxs (cfg # cfgs) Map.empty =
      [path \<mapsto> render env path ctxs] ++ write_configs env ctxs cfgs Map.empty" .
  note left right
  moreover have "fs(path \<mapsto> render env path ctxs) = fs ++ [path \<mapsto> render env path ctxs]"
    by simp
  ultimately show ?case
    by (simp only: map_add_assoc)
qed

lemma write_configs_idem:
  "write_configs env ctxs cfgs (write_configs env ctxs cfgs fs) = write_configs env ctxs cfgs fs"
proof -
  let ?w = "write_configs env ctxs cfgs Map.empty"
  have "write_configs env ctxs cfgs (write_configs env ctxs cfgs fs) = (fs ++ ?w) ++ ?w"
    using write_configs_add [of env ctxs cfgs "write_configs env ctxs cfgs fs"]
      write_configs_add [of env ctxs cfgs fs] by simp
  also have "\<dots> = fs ++ ?w"
    by (rule map_add_subsumed2) simp
  also have "\<dots> = write_configs env ctxs cfgs fs"
    using write_configs_add [of env ctxs cfgs fs] by simp
  finally show ?thesis .
qed

lemma observable_init_service:
  "observable (init_service env ctxs (st\<lparr>calls := calls st @ cs\<rparr>)) =
     (unit_status st, bootstrapped st, write_configs env ctxs (container_configs env) (files st))"
  by (simp add: init_service_def log_call_def observable_def)

text \<open>
  The part of the method after the storage checks, run again on the state it left:
  it returns again and nothing that can be observed has changed, provided the
  inherited step is determined by what can be observed, is idempotent, and keeps the
  rendered files.
\<close>

lemma configure_services_again:
  assumes cong: "\<And>s t. observable s = observable t \<Longrightarrow>
        observable (super_configure_charm env s) = observable (super_configure_charm env t)"
    and idem: "\<And>s. observable (super_configure_charm env (super_configure_charm env s))
        = observable (super_configure_charm env s)"
    and keep: "\<And>s. write_configs env (contexts env) (container_configs env) (files s) = files s
        \<Longrightarrow> write_configs env (contexts env) (container_configs env)
               (files (super_configure_charm env s)) = files (super_configure_charm env s)"
    and first: "configure_services env st = Inr st1"
  shows "\<exists>st2. configure_services env st1 = Inr st2 \<and> observable st2 = observable st1"
proof -
  let ?rewrite_files = "write_configs env (contexts env) (container_configs env)"
  from configure_pebble_uniform [of env]
  consider
    (raises) e cs where "\<And>s. configure_pebble env s = Inl (e, s\<lparr>calls := calls s @ cs\<rparr>)"
  | (skips) "\<And>s. configure_pebble env s = Inr s"
  | (renders) cs where "\<And>s. configure_pebble env s =
        Inr (init_service env (contexts env) (s\<lparr>calls := calls s @ cs\<rparr>))"
    by blast
  then show ?thesis
  proof cases
    case raises
    with first show ?thesis
      by (simp add: configure_services_def)
  next
    case skips
    then have run: "\<And>s. configure_services env s =
        Inr (start_services env (super_configure_charm env s))"
      by (simp add: configure_services_def)
    with first have st1: "st1 = start_services env (super_configure_charm env st)"
      by simp
    then have seen: "observable st1 = observable (super_configure_charm env st)"
      by (simp add: start_services_observable)
    have "observable (start_services env (super_configure_charm env st1))
        = observable (super_configure_charm env st1)"
      by (rule start_services_observable)
    also have "\<dots> = observable (super_configure_charm env (super_configure_charm env st))"
      by (rule cong) (rule seen)
    also have "\<dots> = observable st1"
      by (simp add: idem seen)
    finally show ?thesis
      using run by blast
  next
    case renders
    let ?a = "init_service env (contexts env) (st\<lparr>calls := calls st @ cs\<rparr>)"
    let ?b = "init_service env (contexts env) (st1\<lparr>calls := calls st1 @ cs\<rparr>)"
    from renders have run: "\<And>s. configure_services env s =
        Inr (start_services env (super_configure_charm env
               (init_service env (contexts env) (s\<lparr>calls := calls s @ cs\<rparr>))))"
      by (simp add: configure_services_def)
    with first have st1: "st1 = start_services env (super_configure_charm env ?a)"
      by simp
    then have seen: "observable st1 = observable (super_configure_charm env ?a)"
      by (simp add: start_services_observable)
    have "files ?a = ?rewrite_files (files st)"
      using observable_init_service [of env "contexts env" st cs] by (simp add: observable_def)
    then have "?rewrite_files (files ?a) = files ?a"
      by (simp add: write_configs_idem)
    then have "?rewrite_files (files (super_configure_charm env ?a)) = files (super_configure_charm env ?a)"
      by (rule keep)
    with seen have "?rewrite_files (files st1) = files st1"
      by (simp add: observable_def)
    then have same: "observable ?b = observable st1"
      using observable_init_service [of env "contexts env" st1 cs] by (simp add: observable_def)
    have "observable (start_services env (super_configure_charm env ?b))
        = observable (super_configure_charm env ?b)"
      by (rule start_services_observable)
    also have "\<dots> = observable (super_configure_charm env (super_configure_charm env ?a))"
      by (rule cong) (simp add: same seen)
    also have "\<dots> = observable st1"
      by (simp add: idem seen)
    finally show ?thesis
      using run by blast
  qed
qed

subsection \<open>The storage handler\<close>

text \<open>
  C1. While the Ceph relation is present and its readiness check has not passed, the
  readiness evaluation says not ready, whatever local storage is attached: the
  handler's \<open>ready\<close> is false and the evaluator of the spec answers
  \<open>NotReady\<close>, never \<open>Ready LocalAttached\<close>; and while the relation is present and
  its key has not arrived, \<open>configure_charm\<close> (lines 195 to 198) returns without any
  effect, again whatever local storage is attached.
\<close>

theorem ready_waits_for_present_ceph:
  assumes "has_ceph_relation env"
  shows "(\<not> ceph_client_ready env \<longrightarrow>
            \<not> ready (env\<lparr>storages := sts\<rparr>)
            \<and> spec_evaluate (relation_state_of (env\<lparr>storages := sts\<rparr>))
                 (local_storage_count (env\<lparr>storages := sts\<rparr>))
               = NotReady ''credential key not yet present'')
       \<and> (\<not> truthy (ceph_key env) \<longrightarrow>
            configure_charm (env\<lparr>storages := sts\<rparr>) st = Inr st)"
  using assms
  by (simp add: ready_def spec_evaluate_def relation_state_of_def configure_charm_def)

theorem ready_waits_for_present_ceph_witness:
  "\<not> ready (ceph_pending_env\<lparr>storages := (\<lambda>name. [0, 1])\<rparr>)
   \<and> spec_evaluate (relation_state_of (ceph_pending_env\<lparr>storages := (\<lambda>name. [0, 1])\<rparr>))
        (local_storage_count (ceph_pending_env\<lparr>storages := (\<lambda>name. [0, 1])\<rparr>))
      = NotReady ''credential key not yet present''
   \<and> configure_charm (ceph_pending_env\<lparr>storages := (\<lambda>name. [0, 1])\<rparr>) initial_state
      = Inr initial_state"
  using ready_waits_for_present_ceph
          [OF ceph_pending_env_facts(1), of "\<lambda>name. [0, 1]" initial_state]
        ceph_pending_env_facts(2) ceph_pending_env_facts(3)
  by blast

text \<open>
  C3. While the Ceph relation is present, whatever local storage is attached:
  \<^item> the handler's \<open>ready\<close> is the readiness of the relation, so it is true when the
    relation is ready, and the evaluator of the spec then answers
    \<open>Ready (NetworkedRemote key)\<close> with the key of the relation;
  \<^item> the backend the charm configures is the networked one: the handler exports the
    context of the relation, the two Ceph configuration contexts and \<open>ceph.conf\<close> are
    added, and \<open>configure_charm\<close> does what it does without the local storage;
  \<^item> the key is the relation's: once the relation handlers and the pebble handler are
    ready and the key \<open>k\<close> is there, the keyring is created with \<open>--add-key=k\<close>, after
    the two \<open>apt\<close> commands, and the run goes on to \<open>init_service\<close>.
\<close>

theorem ready_ceph_takes_precedence:
  fixes env :: charm_env and sts :: "string \<Rightarrow> nat list" and st :: charm_state and k :: string
  defines "attached \<equiv> env\<lparr>storages := sts\<rparr>"
    and "refresh \<equiv> [''apt'', ''update'']"
    and "install \<equiv> [''apt'', ''install'', ''-y'', ''ceph-common'']"
    and "keyring \<equiv>
          [''ceph-authtool'', ''/etc/ceph/ceph.client.'' @ app_name env @ ''.keyring'',
           ''--create-keyring'', ''--name=client.'' @ app_name env, ''--add-key='' @ k]"
  assumes rel: "has_ceph_relation env"
  shows "ready attached = ceph_client_ready env
     \<and> (ceph_client_ready env \<longrightarrow>
          ready attached
          \<and> spec_evaluate (relation_state_of attached) (local_storage_count attached)
             = Ready (NetworkedRemote (ceph_key env)))
     \<and> handler_context attached = ceph_client_context env
     \<and> config_contexts attached =
          inherited_config_contexts env
          @ [(''ceph_config'', ceph_configuration_context env),
             (''cinder_ceph'', cinder_ceph_configuration_context env)]
     \<and> container_configs attached =
          inherited_container_configs env @ [(''/etc/ceph/ceph.conf'', ''glance'', ''glance'')]
     \<and> configure_charm attached st = configure_charm env st
     \<and> (relation_handlers_ready env \<and> truthy (ceph_key env) \<longrightarrow>
          configure_charm attached st = configure_services env st)
     \<and> (relation_handlers_ready env \<and> pebble_ready env
          \<and> ceph_key env = Some k \<and> k \<noteq> [] \<longrightarrow>
          configure_charm attached st =
            (if exit_code env refresh \<noteq> 0 then
               Inl (ExecError refresh, st\<lparr>calls := calls st @ [Execute refresh True]\<rparr>)
             else if exit_code env install \<noteq> 0 then
               Inl (ExecError install,
                    st\<lparr>calls := calls st @ [Execute refresh True, Execute install True]\<rparr>)
             else if exit_code env keyring \<noteq> 0 then
               Inl (ExecError keyring,
                    st\<lparr>calls := calls st @
                       [Execute refresh True, Execute install True, Execute keyring True]\<rparr>)
             else
               Inr (start_services env (super_configure_charm env
                      (init_service env (contexts env)
                         (st\<lparr>calls := calls st @
                            [Execute refresh True, Execute install True,
                             Execute keyring True]\<rparr>))))))"
proof -
  have same: "configure_charm attached st = configure_charm env st"
    unfolding attached_def using rel by (simp add: configure_charm_def)
  have evaluated: "ready attached = ceph_client_ready env"
    unfolding attached_def using rel by (simp add: ready_def)
  have verdict: "ceph_client_ready env \<longrightarrow>
      ready attached
      \<and> spec_evaluate (relation_state_of attached) (local_storage_count attached)
         = Ready (NetworkedRemote (ceph_key env))"
    unfolding attached_def using rel
    by (simp add: ready_def spec_evaluate_def relation_state_of_def)
  have exported: "handler_context attached = ceph_client_context env"
    unfolding attached_def using rel by (simp add: handler_context_def)
  have ctxs: "config_contexts attached =
      inherited_config_contexts env
      @ [(''ceph_config'', ceph_configuration_context env),
         (''cinder_ceph'', cinder_ceph_configuration_context env)]"
    unfolding attached_def using rel by (simp add: config_contexts_def)
  have cfgs: "container_configs attached =
      inherited_container_configs env @ [(''/etc/ceph/ceph.conf'', ''glance'', ''glance'')]"
    unfolding attached_def using rel
    by (simp add: container_configs_def ceph_conf_def service_user_def service_group_def)
  have goes_on: "relation_handlers_ready env \<and> truthy (ceph_key env) \<longrightarrow>
      configure_charm attached st = configure_services env st"
    unfolding same using rel by (simp add: configure_charm_def)
  have provisions: "relation_handlers_ready env \<and> pebble_ready env
      \<and> ceph_key env = Some k \<and> k \<noteq> [] \<longrightarrow>
      configure_charm attached st =
        (if exit_code env refresh \<noteq> 0 then
           Inl (ExecError refresh, st\<lparr>calls := calls st @ [Execute refresh True]\<rparr>)
         else if exit_code env install \<noteq> 0 then
           Inl (ExecError install,
                st\<lparr>calls := calls st @ [Execute refresh True, Execute install True]\<rparr>)
         else if exit_code env keyring \<noteq> 0 then
           Inl (ExecError keyring,
                st\<lparr>calls := calls st @
                   [Execute refresh True, Execute install True, Execute keyring True]\<rparr>)
         else
           Inr (start_services env (super_configure_charm env
                  (init_service env (contexts env)
                     (st\<lparr>calls := calls st @
                        [Execute refresh True, Execute install True,
                         Execute keyring True]\<rparr>)))))"
  proof
    assume a: "relation_handlers_ready env \<and> pebble_ready env
      \<and> ceph_key env = Some k \<and> k \<noteq> []"
    then have pr: "pebble_ready env" and key: "ceph_key env = Some k" and ne: "k \<noteq> []"
      by blast+
    from a rel have run: "configure_charm attached st = configure_services env st"
      unfolding same by (simp add: configure_charm_def truthy_def)
    show "configure_charm attached st =
        (if exit_code env refresh \<noteq> 0 then
           Inl (ExecError refresh, st\<lparr>calls := calls st @ [Execute refresh True]\<rparr>)
         else if exit_code env install \<noteq> 0 then
           Inl (ExecError install,
                st\<lparr>calls := calls st @ [Execute refresh True, Execute install True]\<rparr>)
         else if exit_code env keyring \<noteq> 0 then
           Inl (ExecError keyring,
                st\<lparr>calls := calls st @
                   [Execute refresh True, Execute install True, Execute keyring True]\<rparr>)
         else
           Inr (start_services env (super_configure_charm env
                  (init_service env (contexts env)
                     (st\<lparr>calls := calls st @
                        [Execute refresh True, Execute install True,
                         Execute keyring True]\<rparr>)))))"
      unfolding run refresh_def install_def keyring_def
      by (rule configure_services_ceph_commands [OF pr rel key ne])
  qed
  from evaluated verdict exported ctxs cfgs same goes_on provisions show ?thesis
    by blast
qed

theorem ready_ceph_takes_precedence_witness:
  "has_local_storage (ceph_env\<lparr>storages := (\<lambda>name. [0, 1])\<rparr>)
   \<and> ready (ceph_env\<lparr>storages := (\<lambda>name. [0, 1])\<rparr>)
   \<and> spec_evaluate (relation_state_of (ceph_env\<lparr>storages := (\<lambda>name. [0, 1])\<rparr>))
        (local_storage_count (ceph_env\<lparr>storages := (\<lambda>name. [0, 1])\<rparr>))
      = Ready (NetworkedRemote (Some ''AQC''))
   \<and> handler_context (ceph_env\<lparr>storages := (\<lambda>name. [0, 1])\<rparr>)
      = [''key'' \<mapsto> ''AQC'', ''auth'' \<mapsto> ''cephx'']
   \<and> container_configs (ceph_env\<lparr>storages := (\<lambda>name. [0, 1])\<rparr>)
      = [(''/etc/glance/glance-api.conf'', ''glance'', ''glance''),
         (''/etc/ceph/ceph.conf'', ''glance'', ''glance'')]
   \<and> configure_charm (ceph_env\<lparr>storages := (\<lambda>name. [0, 1])\<rparr>) initial_state
      = configure_charm ceph_env initial_state
   \<and> calls (final_state
        (configure_charm (ceph_env\<lparr>storages := (\<lambda>name. [0, 1])\<rparr>) initial_state)) =
       [Execute [''apt'', ''update''] True,
        Execute [''apt'', ''install'', ''-y'', ''ceph-common''] True,
        Execute [''ceph-authtool'', ''/etc/ceph/ceph.client.glance.keyring'',
                 ''--create-keyring'', ''--name=client.glance'', ''--add-key=AQC''] True,
        InitService (contexts ceph_env),
        StartService ''glance-api'']"
proof -
  let ?env = "ceph_env\<lparr>storages := (\<lambda>name. [0, 1])\<rparr>"
  note facts = ready_ceph_takes_precedence
                 [OF ceph_env_facts(1), of "\<lambda>name. [0, 1]" initial_state "''AQC''"]
  have attached: "has_local_storage ?env"
    by (simp add: has_local_storage_def)
  have ok: "exit_code ceph_env cmd = 0" for cmd
    by (simp add: ceph_env_def ceph_pending_env_def bare_env_def)
  have super: "super_configure_charm ceph_env s =
      s\<lparr>unit_status := ActiveStatus, bootstrapped := True\<rparr>" for s
    by (simp add: ceph_env_def ceph_pending_env_def bare_env_def)
  have relation_context:
    "ceph_client_context ceph_env = [''key'' \<mapsto> ''AQC'', ''auth'' \<mapsto> ''cephx'']"
    by (simp add: ceph_env_def)
  have inherited: "inherited_container_configs ceph_env =
      [(''/etc/glance/glance-api.conf'', ''glance'', ''glance'')]"
    by (simp add: ceph_env_def ceph_pending_env_def bare_env_def)
  from facts ceph_env_facts(2) have evaluated: "ready ?env"
    by blast
  from facts [unfolded ceph_env_facts(3)] ceph_env_facts(2) have verdict:
    "spec_evaluate (relation_state_of ?env) (local_storage_count ?env)
      = Ready (NetworkedRemote (Some ''AQC''))"
    by blast
  from facts [unfolded relation_context] have exported:
    "handler_context ?env = [''key'' \<mapsto> ''AQC'', ''auth'' \<mapsto> ''cephx'']"
    by blast
  from facts have "container_configs ?env =
      inherited_container_configs ceph_env @ [(''/etc/ceph/ceph.conf'', ''glance'', ''glance'')]"
    by blast
  then have cfgs: "container_configs ?env =
      [(''/etc/glance/glance-api.conf'', ''glance'', ''glance''),
       (''/etc/ceph/ceph.conf'', ''glance'', ''glance'')]"
    by (simp only: inherited append.simps)
  from facts have same: "configure_charm ?env initial_state = configure_charm ceph_env initial_state"
    by blast
  have ready_to_provision: "relation_handlers_ready ceph_env \<and> pebble_ready ceph_env
      \<and> ceph_key ceph_env = Some ''AQC'' \<and> ''AQC'' \<noteq> []"
    by (simp add: ceph_env_facts)
  note provisioned =
    facts [THEN conjunct2, THEN conjunct2, THEN conjunct2, THEN conjunct2, THEN conjunct2,
           THEN conjunct2, THEN conjunct2, THEN mp, OF ready_to_provision]
  have issued: "calls (final_state (configure_charm ?env initial_state)) =
       [Execute [''apt'', ''update''] True,
        Execute [''apt'', ''install'', ''-y'', ''ceph-common''] True,
        Execute [''ceph-authtool'', ''/etc/ceph/ceph.client.glance.keyring'',
                 ''--create-keyring'', ''--name=client.glance'', ''--add-key=AQC''] True,
        InitService (contexts ceph_env),
        StartService ''glance-api'']"
    unfolding provisioned
    by (simp add: ceph_env_facts ok super start_services_calls init_service_def log_call_def
        initial_state_def)
  from attached evaluated verdict exported cfgs same issued show ?thesis
    by blast
qed

text \<open>
  C4. While the Ceph relation is absent, the readiness evaluation says ready exactly
  when at least one local storage instance is attached; the evaluator of the spec then
  answers \<open>Ready LocalAttached\<close>, and otherwise \<open>NotReady\<close> with the reason
  "no storage backend configured".
\<close>

theorem ready_local_storage_iff:
  assumes "\<not> has_ceph_relation env"
  shows "(ready env \<longleftrightarrow> length (storages env ''local-repository'') > 0)
     \<and> spec_evaluate (relation_state_of env) (local_storage_count env)
        = (if length (storages env ''local-repository'') > 0 then Ready LocalAttached
           else NotReady ''no storage backend configured'')"
  using assms
  by (simp add: ready_def spec_evaluate_def relation_state_of_def local_storage_count_def
      has_local_storage_def)

theorem ready_local_storage_iff_witness:
  "ready local_env
   \<and> spec_evaluate (relation_state_of local_env) (local_storage_count local_env)
      = Ready LocalAttached
   \<and> \<not> ready bare_env
   \<and> spec_evaluate (relation_state_of bare_env) (local_storage_count bare_env)
      = NotReady ''no storage backend configured''"
proof -
  have "storages bare_env ''local-repository'' = []"
    by (simp add: bare_env_def)
  with ready_local_storage_iff [OF local_env_facts(1)]
       ready_local_storage_iff [OF bare_env_facts(1)]
  show ?thesis
    by (simp add: local_env_facts(5))
qed

text \<open>
  C5. The handler's \<open>context\<close> is the whole context of the Ceph relation when the Ceph
  relation is present (the networked backend is the active one), and the empty mapping
  when it is absent, in particular when local storage is the active backend; a
  non-empty context is exported only when the Ceph relation is present.
\<close>

theorem handler_context_by_backend:
  "(has_ceph_relation env \<longrightarrow> handler_context env = ceph_client_context env)
   \<and> (\<not> has_ceph_relation env \<longrightarrow> handler_context env = Map.empty)
   \<and> (handler_context env \<noteq> Map.empty \<longrightarrow> has_ceph_relation env)"
  by (simp add: handler_context_def)

theorem handler_context_by_backend_witness:
  "handler_context ceph_env = [''key'' \<mapsto> ''AQC'', ''auth'' \<mapsto> ''cephx'']
   \<and> handler_context local_env = Map.empty"
proof -
  have "ceph_client_context ceph_env = [''key'' \<mapsto> ''AQC'', ''auth'' \<mapsto> ''cephx'']"
    by (simp add: ceph_env_def)
  with handler_context_by_backend [of ceph_env] handler_context_by_backend [of local_env]
  show ?thesis
    using ceph_env_facts(1) local_env_facts(1) by simp
qed

subsection \<open>configure_charm: waiting and blocking\<close>

text \<open>
  C8. When \<open>relation_handlers_ready\<close> is false, \<open>configure_charm\<close> returns at once and
  leaves the whole state as it was: the status, the bootstrap flag and the files are
  unchanged and no call is made on a pebble handler.
\<close>

theorem configure_charm_defers_unready_relations:
  assumes "\<not> relation_handlers_ready env"
  shows "configure_charm env st = Inr st"
  using assms by (simp add: configure_charm_def)

theorem configure_charm_defers_unready_relations_witness:
  "configure_charm (ceph_env\<lparr>relation_handlers_ready := False\<rparr>) initial_state
   = Inr initial_state"
proof -
  have "\<not> relation_handlers_ready (ceph_env\<lparr>relation_handlers_ready := False\<rparr>)"
    by simp
  then show ?thesis
    by (rule configure_charm_defers_unready_relations)
qed

text \<open>
  C2. With neither the Ceph relation nor local storage, lines 201 to 206 would set the
  status to \<open>BlockedStatus\<close>, but they are never reached: the storage handler is one
  of the registered relation handlers and is not ready in exactly this case, so
  \<open>relation_handlers_ready()\<close> is false and \<open>configure_charm\<close> returns at line 193. The
  state, and with it the status, is left as it was.
\<close>

theorem blocked_status_never_set:
  assumes "relation_handlers_ready env = registered_handlers_ready env"
    and "\<not> has_ceph_relation env" and "\<not> has_local_storage env"
  shows "\<not> ready env \<and> \<not> relation_handlers_ready env \<and> configure_charm env st = Inr st"
proof -
  from assms(2) assms(3) have unready: "\<not> ready env"
    by (simp add: ready_def)
  then have "\<not> registered_handlers_ready env"
    by (simp add: registered_handlers_ready_def get_relation_handlers_def)
  with assms(1) have "\<not> relation_handlers_ready env"
    by simp
  with unready show ?thesis
    by (simp add: configure_charm_def)
qed

theorem blocked_status_never_set_witness:
  "\<not> has_ceph_relation (bare_env\<lparr>relation_handlers_ready := False\<rparr>)
   \<and> \<not> has_local_storage (bare_env\<lparr>relation_handlers_ready := False\<rparr>)
   \<and> configure_charm (bare_env\<lparr>relation_handlers_ready := False\<rparr>) initial_state
      = Inr initial_state
   \<and> unit_status (final_state
         (configure_charm (bare_env\<lparr>relation_handlers_ready := False\<rparr>) initial_state))
      = MaintenanceStatus []"
proof -
  let ?env = "bare_env\<lparr>relation_handlers_ready := False\<rparr>"
  have no_ceph: "\<not> has_ceph_relation ?env"
    using bare_env_facts(1) by (simp add: has_ceph_relation_def)
  have no_local: "\<not> has_local_storage ?env"
    using bare_env_facts(2) by (simp add: has_local_storage_def)
  have "\<not> ready ?env"
    using no_ceph no_local by (simp add: ready_def)
  then have coherent: "relation_handlers_ready ?env = registered_handlers_ready ?env"
    by (simp add: registered_handlers_ready_def get_relation_handlers_def)
  from blocked_status_never_set [OF coherent no_ceph no_local, of initial_state]
  have run: "configure_charm ?env initial_state = Inr initial_state"
    by blast
  then have "unit_status (final_state (configure_charm ?env initial_state))
      = MaintenanceStatus []"
    by (simp add: initial_state_def)
  with no_ceph no_local run show ?thesis
    by blast
qed

subsection \<open>configure_charm: provisioning\<close>

text \<open>
  C6. When the relation handlers are ready and the \<open>glance-api\<close> pebble handler is
  ready: with the Ceph relation present and its key \<open>k\<close> received, \<open>configure_charm\<close>
  issues exactly three commands, in the order \<open>apt update\<close>, \<open>apt install -y
  ceph-common\<close>, \<open>ceph-authtool\<close> creating the keyring with \<open>--add-key=k\<close>, each with
  \<open>exception_on_error=True\<close>; the first command that exits non-zero raises and ends
  the run there, before any later command and before \<open>init_service\<close>; when all three
  succeed the run goes on with \<open>init_service\<close>. With local storage as the backend none
  of the three commands is issued.
\<close>

theorem provisioning_commands_in_order:
  fixes env :: charm_env and st :: charm_state and k :: string
  defines "refresh \<equiv> [''apt'', ''update'']"
    and "install \<equiv> [''apt'', ''install'', ''-y'', ''ceph-common'']"
    and "keyring \<equiv>
          [''ceph-authtool'', ''/etc/ceph/ceph.client.'' @ app_name env @ ''.keyring'',
           ''--create-keyring'', ''--name=client.'' @ app_name env, ''--add-key='' @ k]"
  assumes rh: "relation_handlers_ready env" and pr: "pebble_ready env"
  shows "(has_ceph_relation env \<and> ceph_key env = Some k \<and> k \<noteq> [] \<longrightarrow>
            configure_charm env st =
              (if exit_code env refresh \<noteq> 0 then
                 Inl (ExecError refresh, st\<lparr>calls := calls st @ [Execute refresh True]\<rparr>)
               else if exit_code env install \<noteq> 0 then
                 Inl (ExecError install,
                      st\<lparr>calls := calls st @ [Execute refresh True, Execute install True]\<rparr>)
               else if exit_code env keyring \<noteq> 0 then
                 Inl (ExecError keyring,
                      st\<lparr>calls := calls st @
                         [Execute refresh True, Execute install True, Execute keyring True]\<rparr>)
               else
                 Inr (start_services env (super_configure_charm env
                        (init_service env (contexts env)
                           (st\<lparr>calls := calls st @
                              [Execute refresh True, Execute install True,
                               Execute keyring True]\<rparr>))))))
       \<and> (\<not> has_ceph_relation env \<and> has_local_storage env \<longrightarrow>
            configure_charm env st =
              Inr (start_services env (super_configure_charm env
                     (init_service env (contexts env) st))))"
proof (intro conjI impI)
  assume a: "has_ceph_relation env \<and> ceph_key env = Some k \<and> k \<noteq> []"
  then have run: "configure_charm env st = configure_services env st"
    using rh by (simp add: configure_charm_def truthy_def)
  from a have rel: "has_ceph_relation env" and key: "ceph_key env = Some k" and ne: "k \<noteq> []"
    by blast+
  show "configure_charm env st =
              (if exit_code env refresh \<noteq> 0 then
                 Inl (ExecError refresh, st\<lparr>calls := calls st @ [Execute refresh True]\<rparr>)
               else if exit_code env install \<noteq> 0 then
                 Inl (ExecError install,
                      st\<lparr>calls := calls st @ [Execute refresh True, Execute install True]\<rparr>)
               else if exit_code env keyring \<noteq> 0 then
                 Inl (ExecError keyring,
                      st\<lparr>calls := calls st @
                         [Execute refresh True, Execute install True, Execute keyring True]\<rparr>)
               else
                 Inr (start_services env (super_configure_charm env
                        (init_service env (contexts env)
                           (st\<lparr>calls := calls st @
                              [Execute refresh True, Execute install True,
                               Execute keyring True]\<rparr>)))))"
    unfolding run refresh_def install_def keyring_def
    by (rule configure_services_ceph_commands [OF pr rel key ne])
next
  assume "\<not> has_ceph_relation env \<and> has_local_storage env"
  then show "configure_charm env st =
       Inr (start_services env (super_configure_charm env (init_service env (contexts env) st)))"
    using rh pr by (simp add: configure_charm_def configure_services_local)
qed

theorem provisioning_commands_in_order_witness:
  "calls (final_state (configure_charm ceph_env initial_state)) =
     [Execute [''apt'', ''update''] True,
      Execute [''apt'', ''install'', ''-y'', ''ceph-common''] True,
      Execute [''ceph-authtool'', ''/etc/ceph/ceph.client.glance.keyring'',
               ''--create-keyring'', ''--name=client.glance'', ''--add-key=AQC''] True,
      InitService (contexts ceph_env),
      StartService ''glance-api'']
   \<and> configure_charm (ceph_env\<lparr>exit_code := (\<lambda>cmd. if cmd = [''apt'', ''update''] then 0 else 100)\<rparr>)
        initial_state =
      Inl (ExecError [''apt'', ''install'', ''-y'', ''ceph-common''],
           initial_state\<lparr>calls :=
             [Execute [''apt'', ''update''] True,
              Execute [''apt'', ''install'', ''-y'', ''ceph-common''] True]\<rparr>)
   \<and> calls (final_state (configure_charm local_env initial_state)) =
       [InitService (contexts local_env), StartService ''glance-api'']"
proof -
  let ?failing = "ceph_env\<lparr>exit_code := (\<lambda>cmd. if cmd = [''apt'', ''update''] then 0 else 100)\<rparr>"
  have ok: "exit_code ceph_env cmd = 0" for cmd
    by (simp add: ceph_env_def ceph_pending_env_def bare_env_def)
  have super: "super_configure_charm ceph_env s = s\<lparr>unit_status := ActiveStatus, bootstrapped := True\<rparr>"
    for s
    by (simp add: ceph_env_def ceph_pending_env_def bare_env_def)
  have first: "calls (final_state (configure_charm ceph_env initial_state)) =
     [Execute [''apt'', ''update''] True,
      Execute [''apt'', ''install'', ''-y'', ''ceph-common''] True,
      Execute [''ceph-authtool'', ''/etc/ceph/ceph.client.glance.keyring'',
               ''--create-keyring'', ''--name=client.glance'', ''--add-key=AQC''] True,
      InitService (contexts ceph_env),
      StartService ''glance-api'']"
    using provisioning_commands_in_order
            [OF ceph_env_facts(5) ceph_env_facts(6), of "''AQC''" initial_state]
    by (simp add: ceph_env_facts ok super start_services_calls init_service_def log_call_def
        initial_state_def)
  have failing_facts:
    "relation_handlers_ready ?failing" "pebble_ready ?failing" "has_ceph_relation ?failing"
    "ceph_key ?failing = Some ''AQC''" "app_name ?failing = ''glance''"
    using ceph_env_facts by (simp_all add: has_ceph_relation_def)
  have second: "configure_charm ?failing initial_state =
      Inl (ExecError [''apt'', ''install'', ''-y'', ''ceph-common''],
           initial_state\<lparr>calls :=
             [Execute [''apt'', ''update''] True,
              Execute [''apt'', ''install'', ''-y'', ''ceph-common''] True]\<rparr>)"
    using provisioning_commands_in_order
            [OF failing_facts(1) failing_facts(2), of "''AQC''" initial_state]
    by (simp add: failing_facts initial_state_def)
  have super_local:
    "super_configure_charm local_env s = s\<lparr>unit_status := ActiveStatus, bootstrapped := True\<rparr>"
    for s
    by (simp add: local_env_def bare_env_def)
  have handlers: "pebble_handlers local_env = [''glance-api'']"
    by (simp add: local_env_def bare_env_def)
  have third: "calls (final_state (configure_charm local_env initial_state)) =
       [InitService (contexts local_env), StartService ''glance-api'']"
    using provisioning_commands_in_order
            [OF local_env_facts(3) local_env_facts(4), of "''x''" initial_state]
    by (simp add: local_env_facts super_local handlers start_services_calls init_service_def
        log_call_def initial_state_def)
  from first second third show ?thesis
    by blast
qed

text \<open>
  C10. When the storage checks pass (the Ceph relation is present with its key, or it is
  absent and local storage is attached) but the \<open>glance-api\<close> pebble handler is not
  ready, \<open>configure_charm\<close> issues no provisioning command and no \<open>init_service\<close>: it
  hands the unchanged state to the inherited \<open>configure_charm\<close> and then, if the
  bootstrap flag is set, calls \<open>start_service\<close> on every pebble handler.
\<close>

theorem configure_charm_pebble_not_ready:
  assumes "relation_handlers_ready env" and "\<not> pebble_ready env"
    and "has_ceph_relation env \<and> truthy (ceph_key env)
         \<or> \<not> has_ceph_relation env \<and> has_local_storage env"
  shows "configure_charm env st = Inr (start_services env (super_configure_charm env st))
     \<and> calls (final_state (configure_charm env st)) =
         calls (super_configure_charm env st)
         @ (if bootstrapped (super_configure_charm env st)
            then map StartService (pebble_handlers env) else [])"
proof -
  have run: "configure_charm env st = configure_services env st"
    using assms by (auto simp add: configure_charm_def)
  have "configure_pebble env st = Inr st"
    using assms(2) by (simp add: configure_pebble_def)
  then have "configure_services env st =
      Inr (start_services env (super_configure_charm env st))"
    by (simp add: configure_services_def)
  with run show ?thesis
    by (simp add: start_services_calls)
qed

theorem configure_charm_pebble_not_ready_witness:
  "configure_charm (ceph_env\<lparr>pebble_ready := False\<rparr>) initial_state =
     Inr (start_services (ceph_env\<lparr>pebble_ready := False\<rparr>)
            (super_configure_charm (ceph_env\<lparr>pebble_ready := False\<rparr>) initial_state))
   \<and> calls (final_state (configure_charm (ceph_env\<lparr>pebble_ready := False\<rparr>) initial_state))
      = [StartService ''glance-api'']"
proof -
  let ?env = "ceph_env\<lparr>pebble_ready := False\<rparr>"
  have facts: "relation_handlers_ready ?env" "\<not> pebble_ready ?env"
    "has_ceph_relation ?env \<and> truthy (ceph_key ?env)
     \<or> \<not> has_ceph_relation ?env \<and> has_local_storage ?env"
    using ceph_env_facts by (simp_all add: has_ceph_relation_def)
  have super: "super_configure_charm ceph_env s =
      s\<lparr>unit_status := ActiveStatus, bootstrapped := True\<rparr>" for s
    by (simp add: ceph_env_def ceph_pending_env_def bare_env_def)
  note run = configure_charm_pebble_not_ready [OF facts, of initial_state]
  from run [THEN conjunct2]
  have "calls (final_state (configure_charm ?env initial_state))
      = [StartService ''glance-api'']"
    by (simp add: super ceph_env_facts(8) initial_state_def)
  with run show ?thesis
    by blast
qed

subsection \<open>configure_charm: the bootstrap flag\<close>

text \<open>
  C9. \<open>configure_charm\<close> never writes the bootstrap flag itself: the flag it leaves is
  the flag it found, or the flag the inherited \<open>configure_charm\<close> left when run on a
  state with the flag it found. So, as long as the inherited step does not unset the
  flag, a set flag stays set across every run. The flag is read once, by the start
  step, which calls \<open>start_service\<close> on the pebble handlers when the flag is set, calls
  nothing when it is not, and leaves the flag as it is.
\<close>

theorem bootstrapped_monotonic:
  assumes mono: "\<And>s. bootstrapped s \<Longrightarrow> bootstrapped (super_configure_charm env s)"
  shows "(bootstrapped st \<longrightarrow> bootstrapped (final_state (configure_charm env st)))
     \<and> (bootstrapped (final_state (configure_charm env st)) = bootstrapped st
        \<or> (\<exists>s. bootstrapped s = bootstrapped st
             \<and> bootstrapped (final_state (configure_charm env st))
                 = bootstrapped (super_configure_charm env s)))
     \<and> calls (start_services env st') =
         calls st' @ (if bootstrapped st' then map StartService (pebble_handlers env) else [])
     \<and> bootstrapped (start_services env st') = bootstrapped st'"
proof (intro conjI impI)
  assume "bootstrapped st"
  with configure_charm_flag [of env st] mono
  show "bootstrapped (final_state (configure_charm env st))"
    by metis
next
  show "bootstrapped (final_state (configure_charm env st)) = bootstrapped st
        \<or> (\<exists>s. bootstrapped s = bootstrapped st
             \<and> bootstrapped (final_state (configure_charm env st))
                 = bootstrapped (super_configure_charm env s))"
    by (rule configure_charm_flag)
next
  show "calls (start_services env st') =
         calls st' @ (if bootstrapped st' then map StartService (pebble_handlers env) else [])"
    by (rule start_services_calls)
next
  show "bootstrapped (start_services env st') = bootstrapped st'"
    by (rule start_services_bootstrapped)
qed

theorem bootstrapped_monotonic_witness:
  "bootstrapped (initial_state\<lparr>bootstrapped := True\<rparr>)
   \<and> bootstrapped (final_state (configure_charm (local_env\<lparr>super_configure_charm := (\<lambda>s. s)\<rparr>)
        (initial_state\<lparr>bootstrapped := True\<rparr>)))
   \<and> calls (start_services (local_env\<lparr>super_configure_charm := (\<lambda>s. s)\<rparr>)
        (initial_state\<lparr>bootstrapped := True\<rparr>)) = [StartService ''glance-api'']
   \<and> calls (start_services (local_env\<lparr>super_configure_charm := (\<lambda>s. s)\<rparr>) initial_state) = []"
proof -
  let ?env = "local_env\<lparr>super_configure_charm := (\<lambda>s. s)\<rparr>"
  have mono: "bootstrapped s \<Longrightarrow> bootstrapped (super_configure_charm ?env s)" for s
    by simp
  have handlers: "pebble_handlers ?env = [''glance-api'']"
    by (simp add: local_env_def bare_env_def)
  from bootstrapped_monotonic [of ?env "initial_state\<lparr>bootstrapped := True\<rparr>"
         "initial_state\<lparr>bootstrapped := True\<rparr>", OF mono]
       bootstrapped_monotonic [of ?env initial_state initial_state, OF mono]
  show ?thesis
    by (simp add: handlers initial_state_def)
qed

subsection \<open>configure_charm: running it again\<close>

text \<open>
  C7. In an unchanged environment, a second run of \<open>configure_charm\<close> after a first one
  that returned also returns, and leaves the reported status, the files and the
  bootstrap flag as the first run left them. The inherited \<open>configure_charm\<close> is library
  code; what is asked of it is that what it leaves to be observed depends only on what
  it found to be observed, that running it twice is as running it once, and that it
  leaves the rendered configuration files in place.
\<close>

theorem configure_charm_idempotent:
  assumes cong: "\<And>s t. observable s = observable t \<Longrightarrow>
        observable (super_configure_charm env s) = observable (super_configure_charm env t)"
    and idem: "\<And>s. observable (super_configure_charm env (super_configure_charm env s))
        = observable (super_configure_charm env s)"
    and keep: "\<And>s. write_configs env (contexts env) (container_configs env) (files s) = files s
        \<Longrightarrow> write_configs env (contexts env) (container_configs env)
               (files (super_configure_charm env s)) = files (super_configure_charm env s)"
    and first: "configure_charm env st = Inr st1"
  shows "\<exists>st2. configure_charm env st1 = Inr st2
           \<and> unit_status st2 = unit_status st1
           \<and> files st2 = files st1
           \<and> bootstrapped st2 = bootstrapped st1"
proof -
  have goal: "\<exists>st2. configure_charm env st1 = Inr st2 \<and> observable st2 = observable st1"
  proof (cases "relation_handlers_ready env")
    case False
    then show ?thesis
      by (simp add: configure_charm_def)
  next
    case rh: True
    show ?thesis
    proof (cases "has_ceph_relation env")
      case ceph: True
      show ?thesis
      proof (cases "truthy (ceph_key env)")
        case False
        with rh ceph show ?thesis
          by (simp add: configure_charm_def)
      next
        case True
        with rh ceph have "\<And>s. configure_charm env s = configure_services env s"
          by (simp add: configure_charm_def)
        with first show ?thesis
          using configure_services_again [OF cong idem keep] by simp
      qed
    next
      case no_ceph: False
      show ?thesis
      proof (cases "has_local_storage env")
        case True
        with rh no_ceph have "\<And>s. configure_charm env s = configure_services env s"
          by (simp add: configure_charm_def)
        with first show ?thesis
          using configure_services_again [OF cong idem keep] by simp
      next
        case False
        with rh no_ceph first show ?thesis
          by (auto simp add: configure_charm_def observable_def)
      qed
    qed
  qed
  then show ?thesis
    by (auto simp add: observable_def)
qed

theorem configure_charm_idempotent_witness:
  "configure_charm local_env initial_state =
     Inr (final_state (configure_charm local_env initial_state))
   \<and> observable (final_state (configure_charm local_env initial_state)) =
       (ActiveStatus, True,
        [''/etc/glance/glance-api.conf'' \<mapsto> ''rendered /etc/glance/glance-api.conf''])
   \<and> (\<exists>st2. configure_charm local_env (final_state (configure_charm local_env initial_state))
               = Inr st2
          \<and> unit_status st2 = ActiveStatus
          \<and> files st2 =
              [''/etc/glance/glance-api.conf'' \<mapsto> ''rendered /etc/glance/glance-api.conf'']
          \<and> bootstrapped st2)"
proof -
  have super: "super_configure_charm local_env s =
      s\<lparr>unit_status := ActiveStatus, bootstrapped := True\<rparr>" for s
    by (simp add: local_env_def bare_env_def)
  have cong: "observable s = observable t \<Longrightarrow>
      observable (super_configure_charm local_env s)
      = observable (super_configure_charm local_env t)" for s t
    by (simp add: super observable_def)
  have idem: "observable (super_configure_charm local_env (super_configure_charm local_env s))
      = observable (super_configure_charm local_env s)" for s
    by (simp add: super observable_def)
  have keep: "write_configs local_env (contexts local_env) (container_configs local_env)
        (files s) = files s
      \<Longrightarrow> write_configs local_env (contexts local_env) (container_configs local_env)
            (files (super_configure_charm local_env s))
          = files (super_configure_charm local_env s)" for s
    by (simp add: super)
  have run: "configure_charm local_env initial_state =
      Inr (start_services local_env (super_configure_charm local_env
             (init_service local_env (contexts local_env) initial_state)))"
    using local_env_facts by (simp add: configure_charm_def configure_services_local)
  then have first: "configure_charm local_env initial_state =
      Inr (final_state (configure_charm local_env initial_state))"
    by simp
  have configs: "container_configs local_env =
      [(''/etc/glance/glance-api.conf'', ''glance'', ''glance'')]"
    using local_env_facts(1) by (simp add: container_configs_def local_env_def bare_env_def)
  have rendered: "render local_env path ctxs = ''rendered '' @ path" for path ctxs
    by (simp add: local_env_def bare_env_def)
  have seen: "observable (final_state (configure_charm local_env initial_state)) =
       (ActiveStatus, True,
        [''/etc/glance/glance-api.conf'' \<mapsto> ''rendered /etc/glance/glance-api.conf''])"
    unfolding run
    by (simp add: start_services_observable [unfolded observable_def] observable_def super
        init_service_def log_call_def configs rendered initial_state_def)
  from configure_charm_idempotent [OF cong idem keep first]
  obtain st2 where
    "configure_charm local_env (final_state (configure_charm local_env initial_state)) = Inr st2"
    "unit_status st2 = unit_status (final_state (configure_charm local_env initial_state))"
    "files st2 = files (final_state (configure_charm local_env initial_state))"
    "bootstrapped st2 = bootstrapped (final_state (configure_charm local_env initial_state))"
    by blast
  with seen have "\<exists>st2.
      configure_charm local_env (final_state (configure_charm local_env initial_state)) = Inr st2
      \<and> unit_status st2 = ActiveStatus
      \<and> files st2 =
          [''/etc/glance/glance-api.conf'' \<mapsto> ''rendered /etc/glance/glance-api.conf'']
      \<and> bootstrapped st2"
    by (simp add: observable_def)
  with first seen show ?thesis
    by blast
qed

end
